theory Spec2Isabelle
  imports Main "HOL-Library.AList"
begin

section \<open>Effects: calls into the emulation framework\<close>

text \<open>
  The script calls methods of the emulation framework (the base class of a node, the
  network handle, the logger). A call runs on a state of the emulated world, may raise, and
  leaves a state behind in either case: a Python exception does not undo what happened
  before it.
\<close>

datatype error = Raised string

type_synonym ('s, 'a) eff = "'s \<Rightarrow> (error + 'a) \<times> 's"

text \<open>Statement sequencing \<open>m; k\<close>: the value of \<open>m\<close> is dropped, an exception of \<open>m\<close> skips \<open>k\<close>.\<close>

definition seq :: "('s, 'a) eff \<Rightarrow> ('s, 'b) eff \<Rightarrow> ('s, 'b) eff" where
  "seq m k s = (case m s of (Inl e, s') \<Rightarrow> (Inl e, s') | (Inr _, s') \<Rightarrow> k s')"

text \<open>An expression statement: the call's value is discarded.\<close>

definition discard :: "('s, 'a) eff \<Rightarrow> ('s, unit) eff" where
  "discard m s = (case m s of (Inl e, s') \<Rightarrow> (Inl e, s') | (Inr _, s') \<Rightarrow> (Inr (), s'))"

text \<open>A block of statements, and the implicit \<open>return None\<close> at its end.\<close>

fun block :: "('s, unit) eff list \<Rightarrow> ('s, unit) eff" where
  "block [] s = (Inr (), s)"
| "block (m # ms) s = seq m (block ms) s"

section \<open>LinuxRouter\<close>

type_synonym params = "(string \<times> string) list"

text \<open>
  The methods of the framework's \<open>Node\<close> that \<open>LinuxRouter\<close> calls: \<open>config(**params)\<close>,
  \<open>cmd(str)\<close> (which returns the command's output) and \<open>terminate()\<close>. They are not
  part of this repository, so the router is modelled over any implementation of them.
\<close>

record 's node_api =
  node_config :: "params \<Rightarrow> ('s, unit) eff"
  node_cmd :: "string \<Rightarrow> ('s, string) eff"
  node_terminate :: "('s, unit) eff"

text \<open>
  \<^verbatim>\<open>
  def config(self, **params):
      super(LinuxRouter, self).config(**params)
      self.cmd('sysctl net.ipv4.ip_forward=1')
  def terminate(self):
      self.cmd('sysctl net.ipv4.ip_forward=0')
      super(LinuxRouter, self).terminate()
  \<close>
\<close>

definition LinuxRouter_config :: "'s node_api \<Rightarrow> params \<Rightarrow> ('s, unit) eff" where
  "LinuxRouter_config api ps =
     block [node_config api ps,
            discard (node_cmd api ''sysctl net.ipv4.ip_forward=1'')]"

definition LinuxRouter_terminate :: "'s node_api \<Rightarrow> ('s, unit) eff" where
  "LinuxRouter_terminate api =
     block [discard (node_cmd api ''sysctl net.ipv4.ip_forward=0''),
            node_terminate api]"

subsection \<open>Observing the order of calls\<close>

datatype node_call = Call_config params | Call_cmd string | Call_terminate

text \<open>The same framework, with every call written to a log at the moment it is made.\<close>

definition logged :: "'c \<Rightarrow> ('s, 'a) eff \<Rightarrow> ('c list \<times> 's, 'a) eff" where
  "logged c m = (\<lambda>(tr, s). case m s of (r, s') \<Rightarrow> (r, (tr @ [c], s')))"

definition traced_node :: "'s node_api \<Rightarrow> (node_call list \<times> 's) node_api" where
  "traced_node api =
     \<lparr> node_config = (\<lambda>ps. logged (Call_config ps) (node_config api ps)),
       node_cmd = (\<lambda>c. logged (Call_cmd c) (node_cmd api c)),
       node_terminate = logged Call_terminate (node_terminate api) \<rparr>"

subsection \<open>What the router relies on\<close>

text \<open>
  The forwarding flag of a node's namespace is read off the state by \<open>fwd\<close>. The router
  relies on the framework for this much: a \<open>sysctl\<close> command that returns has set the flag
  as asked, and the base class's \<open>config\<close> and \<open>terminate\<close> leave the flag alone.
\<close>

definition sysctl_contract :: "('s \<Rightarrow> bool) \<Rightarrow> 's node_api \<Rightarrow> bool" where
  "sysctl_contract fwd api \<longleftrightarrow>
     (\<forall>s out s'. node_cmd api ''sysctl net.ipv4.ip_forward=1'' s = (Inr out, s') \<longrightarrow> fwd s') \<and>
     (\<forall>s out s'. node_cmd api ''sysctl net.ipv4.ip_forward=0'' s = (Inr out, s') \<longrightarrow> \<not> fwd s') \<and>
     (\<forall>ps s. fwd (snd (node_config api ps s)) = fwd s) \<and>
     (\<forall>s. fwd (snd (node_terminate api s)) = fwd s)"

text \<open>
  A small framework to run the router on: a node whose shell is running, with the options
  it was configured with and the forwarding flag of its namespace. The shell takes one
  command at a time: while the node is waiting for the output of a command sent earlier,
  \<open>cmd\<close> fails its assertion, and so does \<open>config\<close>, which configures through \<open>cmd\<close>.
  \<open>terminate\<close> ends the shell and changes none of the three; the sample does not describe
  calls made on a node after its shell has ended.
\<close>

record ns =
  waiting :: bool
  configured :: "params option"
  ip_forward :: bool

definition ns_config :: "params \<Rightarrow> (ns, unit) eff" where
  "ns_config ps s =
     (if waiting s then (Inl (Raised ''AssertionError''), s)
      else (Inr (), s\<lparr>configured := Some ps\<rparr>))"

definition ns_cmd :: "string \<Rightarrow> (ns, string) eff" where
  "ns_cmd c s =
     (if waiting s then (Inl (Raised ''AssertionError''), s)
      else if c = ''sysctl net.ipv4.ip_forward=1''
        then (Inr ''net.ipv4.ip_forward = 1'', s\<lparr>ip_forward := True\<rparr>)
      else if c = ''sysctl net.ipv4.ip_forward=0''
        then (Inr ''net.ipv4.ip_forward = 0'', s\<lparr>ip_forward := False\<rparr>)
      else (Inr [], s))"

definition ns_terminate :: "(ns, unit) eff" where
  "ns_terminate s = (Inr (), s)"

definition ns_node :: "ns node_api" where
  "ns_node = \<lparr> node_config = ns_config, node_cmd = ns_cmd, node_terminate = ns_terminate \<rparr>"

text \<open>
  A node as the engine hands it over, and a node that was never configured and is still
  waiting for a command sent to its shell.
\<close>

definition fresh_ns :: ns where
  "fresh_ns = \<lparr> waiting = False, configured = None, ip_forward = False \<rparr>"

definition busy_ns :: ns where
  "busy_ns = \<lparr> waiting = True, configured = None, ip_forward = False \<rparr>"

section \<open>NetworkTopo\<close>

text \<open>
  The topology object of the framework holds what was declared: the nodes with their
  options, in a dictionary keyed by name, and the links in the order they were added.
  The options the script passes are \<open>cls\<close>, \<open>ip\<close> and \<open>defaultRoute\<close> for a node (the
  framework's \<open>addSwitch\<close> adds \<open>isSwitch\<close>), and \<open>intfName2\<close> and \<open>params2\<close> for a link.
\<close>

datatype node_class = LinuxRouter

record node_opts =
  cls :: "node_class option"
  ip :: "string option"
  defaultRoute :: "string option"
  isSwitch :: bool

record link =
  node1 :: string
  node2 :: string
  intfName2 :: "string option"
  params2 :: params

record topo =
  nodes :: "(string \<times> node_opts) list"
  links :: "link list"

definition no_opts :: node_opts where
  "no_opts = \<lparr> cls = None, ip = None, defaultRoute = None, isSwitch = False \<rparr>"

definition empty_topo :: topo where
  "empty_topo = \<lparr> nodes = [], links = [] \<rparr>"

text \<open>
  The registration calls of the framework record the declaration and return the name. A
  name declared again keeps its place and takes the new options, as a dictionary entry does.
  The framework's \<open>addLink\<close> raises \<open>KeyError\<close> for an endpoint that was not declared, and
  fills in the topology's default link options when a link is added with none. \<open>build\<close>
  declares both endpoints of every link before it adds the link, and \<open>NetworkTopo()\<close> sets
  no default link options, so \<open>addLink\<close> below records the link and does neither.
\<close>

definition addNode :: "string \<Rightarrow> node_opts \<Rightarrow> topo \<Rightarrow> string \<times> topo" where
  "addNode name opts self = (name, self\<lparr>nodes := AList.update name opts (nodes self)\<rparr>)"

definition addHost :: "string \<Rightarrow> node_opts \<Rightarrow> topo \<Rightarrow> string \<times> topo" where
  "addHost name opts self = addNode name opts self"

definition addSwitch :: "string \<Rightarrow> topo \<Rightarrow> string \<times> topo" where
  "addSwitch name self = addNode name (no_opts\<lparr>isSwitch := True\<rparr>) self"

definition addLink :: "string \<Rightarrow> string \<Rightarrow> string option \<Rightarrow> params \<Rightarrow> topo \<Rightarrow> topo" where
  "addLink n1 n2 name2 ps2 self =
     self\<lparr>links := links self @
       [\<lparr> node1 = n1, node2 = n2, intfName2 = name2, params2 = ps2 \<rparr>]\<rparr>"

text \<open>\<open>NetworkTopo.build\<close>, statement by statement; \<open>self\<close> is threaded through.\<close>

definition build :: "topo \<Rightarrow> topo" where
  "build self =
    (let (routerA, self) = addNode ''rA''
           (no_opts\<lparr>cls := Some LinuxRouter, ip := Some ''20.10.100.1/24''\<rparr>) self;
         (routerB, self) = addNode ''rB''
           (no_opts\<lparr>cls := Some LinuxRouter, ip := Some ''20.10.100.2/24''\<rparr>) self;
         (routerC, self) = addNode ''rC''
           (no_opts\<lparr>cls := Some LinuxRouter, ip := Some ''20.10.100.3/24''\<rparr>) self;

         (switchA, self) = addSwitch ''s1'' self;
         (switchB, self) = addSwitch ''s2'' self;
         (switchC, self) = addSwitch ''s3'' self;

         (switchRouter, self) = addSwitch ''s4'' self;

         (hostA1, self) = addHost ''hA1''
           (no_opts\<lparr>ip := Some ''20.10.172.130/26'',
                    defaultRoute := Some ''via 20.10.172.129''\<rparr>) self;
         (hostA2, self) = addHost ''hA2''
           (no_opts\<lparr>ip := Some ''20.10.172.131/26'',
                    defaultRoute := Some ''via 20.10.172.129''\<rparr>) self;

         (hostB1, self) = addHost ''hB1''
           (no_opts\<lparr>ip := Some ''20.10.172.2/25'',
                    defaultRoute := Some ''via 20.10.172.1''\<rparr>) self;
         (hostB2, self) = addHost ''hB2''
           (no_opts\<lparr>ip := Some ''20.10.172.3/25'',
                    defaultRoute := Some ''via 20.10.172.1''\<rparr>) self;

         (hostC1, self) = addHost ''hC1''
           (no_opts\<lparr>ip := Some ''20.10.172.194/27'',
                    defaultRoute := Some ''via 20.10.172.193''\<rparr>) self;
         (hostC2, self) = addHost ''hC2''
           (no_opts\<lparr>ip := Some ''20.10.172.195/27'',
                    defaultRoute := Some ''via 20.10.172.193''\<rparr>) self;

         self = addLink switchRouter routerA (Some ''rA-eth1'')
                  [(''ip'', ''20.10.100.1/24'')] self;
         self = addLink switchRouter routerB (Some ''rB-eth1'')
                  [(''ip'', ''20.10.100.2/24'')] self;
         self = addLink switchRouter routerC (Some ''rC-eth1'')
                  [(''ip'', ''20.10.100.3/24'')] self;

         self = addLink switchA routerA (Some ''rA-eth0'')
                  [(''ip'', ''20.10.172.129/26'')] self;
         self = addLink switchB routerB (Some ''rB-eth0'')
                  [(''ip'', ''20.10.172.1/25'')] self;
         self = addLink switchC routerC (Some ''rC-eth0'')
                  [(''ip'', ''20.10.172.193/27'')] self;

         self = addLink hostA1 switchA None [] self;
         self = addLink hostA2 switchA None [] self;
         self = addLink hostB1 switchB None [] self;
         self = addLink hostB2 switchB None [] self;
         self = addLink hostC1 switchC None [] self;
         self = addLink hostC2 switchC None [] self
     in self)"

text \<open>\<open>NetworkTopo()\<close>: the framework's constructor runs \<open>build\<close> on an empty topology.\<close>

definition NetworkTopo :: topo where
  "NetworkTopo = build empty_topo"

subsection \<open>Roles and neighbours\<close>

datatype role = Router | Switch | Host

definition role_of :: "node_opts \<Rightarrow> role" where
  "role_of opts =
     (if isSwitch opts then Switch
      else if cls opts = Some LinuxRouter then Router
      else Host)"

definition names_of :: "role \<Rightarrow> topo \<Rightarrow> string list" where
  "names_of r t = map fst (filter (\<lambda>(n, opts). role_of opts = r) (nodes t))"

definition has_role :: "topo \<Rightarrow> role \<Rightarrow> string \<Rightarrow> bool" where
  "has_role t r n = (case map_of (nodes t) n of None \<Rightarrow> False | Some opts \<Rightarrow> role_of opts = r)"

text \<open>The nodes at the other end of the links of \<open>n\<close>, in link order.\<close>

definition neighbours :: "topo \<Rightarrow> string \<Rightarrow> string list" where
  "neighbours t n =
     concat (map (\<lambda>l. (if node1 l = n then [node2 l] else []) @
                       (if node2 l = n then [node1 l] else [])) (links t))"

text \<open>A LAN switch has a host attached; a backbone switch is attached to routers only.\<close>

definition lan_switches :: "topo \<Rightarrow> string list" where
  "lan_switches t = filter (\<lambda>s. list_ex (has_role t Host) (neighbours t s)) (names_of Switch t)"

definition backbone_switches :: "topo \<Rightarrow> string list" where
  "backbone_switches t =
     filter (\<lambda>s. neighbours t s \<noteq> [] \<and> list_all (has_role t Router) (neighbours t s))
       (names_of Switch t)"

subsection \<open>Interfaces and their addresses\<close>

text \<open>
  When the engine realises the topology, every link gives each of its two nodes an
  interface. The interface of \<open>node2\<close> takes the address in \<open>params2\<close>; the script passes no
  options for \<open>node1\<close>. A node's own \<open>ip\<close> option is then set on its default interface, the
  one of its first link.
\<close>

record intf =
  owner :: string
  peer :: string
  addr :: "string option"

definition link_ends :: "link \<Rightarrow> intf list" where
  "link_ends l =
     [\<lparr> owner = node1 l, peer = node2 l, addr = None \<rparr>,
      \<lparr> owner = node2 l, peer = node1 l, addr = map_of (params2 l) ''ip'' \<rparr>]"

definition node_intfs :: "topo \<Rightarrow> string \<Rightarrow> intf list" where
  "node_intfs t n =
     (case filter (\<lambda>i. owner i = n) (concat (map link_ends (links t))) of
        [] \<Rightarrow> []
      | i # rest \<Rightarrow>
          (case map_of (nodes t) n of
             None \<Rightarrow> i # rest
           | Some opts \<Rightarrow>
               (case ip opts of None \<Rightarrow> i # rest | Some a \<Rightarrow> i\<lparr>addr := Some a\<rparr> # rest)))"

text \<open>The interfaces of the nodes that are not switches: the ones that carry addresses.\<close>

definition intfs :: "topo \<Rightarrow> intf list" where
  "intfs t =
     concat (map (\<lambda>(n, opts). node_intfs t n) (filter (\<lambda>(n, opts). \<not> isSwitch opts) (nodes t)))"

text \<open>The addresses on the segment of a switch, as declared (\<open>address/prefix\<close>).\<close>

definition segment_addrs :: "topo \<Rightarrow> string \<Rightarrow> string list" where
  "segment_addrs t sw =
     List.map_filter addr (filter (\<lambda>i. peer i = sw) (intfs t))"

definition assigned_addrs :: "topo \<Rightarrow> string list" where
  "assigned_addrs t = List.map_filter addr (intfs t)"

subsection \<open>Reading addresses\<close>

text \<open>
  An IPv4 address is the integer its four octets spell; \<open>a.b.c.d/p\<close> is an address and a
  prefix length. A string that is not of that form reads as \<open>None\<close>.
\<close>

fun split_on :: "char \<Rightarrow> string \<Rightarrow> string list" where
  "split_on c [] = [[]]"
| "split_on c (x # xs) =
     (if x = c then [] # split_on c xs
      else (case split_on c xs of [] \<Rightarrow> [[x]] | y # ys \<Rightarrow> (x # y) # ys))"

definition digit_of :: "char \<Rightarrow> nat option" where
  "digit_of c =
     (let n = (of_char c :: nat) in if 48 \<le> n \<and> n \<le> 57 then Some (n - 48) else None)"

fun digits_val :: "nat \<Rightarrow> string \<Rightarrow> nat option" where
  "digits_val acc [] = Some acc"
| "digits_val acc (c # cs) =
     (case digit_of c of None \<Rightarrow> None | Some d \<Rightarrow> digits_val (10 * acc + d) cs)"

definition parse_nat :: "string \<Rightarrow> nat option" where
  "parse_nat s = (if s = [] then None else digits_val 0 s)"

definition ipv4 :: "nat \<Rightarrow> nat \<Rightarrow> nat \<Rightarrow> nat \<Rightarrow> int" where
  "ipv4 a b c d = ((int a * 256 + int b) * 256 + int c) * 256 + int d"

definition parse_ip :: "string \<Rightarrow> int option" where
  "parse_ip s =
     (case map parse_nat (split_on CHR ''.'' s) of
        [Some a, Some b, Some c, Some d] \<Rightarrow>
          (if a \<le> 255 \<and> b \<le> 255 \<and> c \<le> 255 \<and> d \<le> 255 then Some (ipv4 a b c d) else None)
      | _ \<Rightarrow> None)"

definition parse_cidr :: "string \<Rightarrow> (int \<times> nat) option" where
  "parse_cidr s =
     (case split_on CHR ''/'' s of
        [a, p] \<Rightarrow>
          (case (parse_ip a, parse_nat p) of
             (Some x, Some n) \<Rightarrow> (if n \<le> 32 then Some (x, n) else None)
           | _ \<Rightarrow> None)
      | _ \<Rightarrow> None)"

text \<open>The option \<open>defaultRoute='via a.b.c.d'\<close> names the next hop.\<close>

definition parse_via :: "string \<Rightarrow> int option" where
  "parse_via s = (if take 4 s = ''via '' then parse_ip (drop 4 s) else None)"

text \<open>The network an address with a prefix length lies in, and membership in it.\<close>

definition network :: "int \<times> nat \<Rightarrow> int \<times> nat" where
  "network ap = (case ap of (a, p) \<Rightarrow> ((a div 2 ^ (32 - p)) * 2 ^ (32 - p), p))"

definition in_net :: "int \<Rightarrow> int \<times> nat \<Rightarrow> bool" where
  "in_net d ap = (case ap of (a, p) \<Rightarrow> d div 2 ^ (32 - p) = a div 2 ^ (32 - p))"

definition subnet_of :: "string \<Rightarrow> (int \<times> nat) option" where
  "subnet_of s = map_option network (parse_cidr s)"

subsection \<open>The invariants of a topology\<close>

text \<open>
  The three invariants the design states for a topology, as checks: every link endpoint
  is a declared node; no two links give one named interface of a node different
  addresses; the addresses on the segment of one switch all read, and lie in one subnet.
\<close>

definition dangling_links :: "topo \<Rightarrow> link list" where
  "dangling_links t =
     filter (\<lambda>l. map_of (nodes t) (node1 l) = None \<or> map_of (nodes t) (node2 l) = None) (links t)"

definition intf_assignments :: "topo \<Rightarrow> ((string \<times> string) \<times> string) list" where
  "intf_assignments t =
     concat (map (\<lambda>l. case (intfName2 l, map_of (params2 l) ''ip'') of
                         (Some i, Some a) \<Rightarrow> [((node2 l, i), a)]
                       | _ \<Rightarrow> []) (links t))"

definition conflicting_assignments :: "topo \<Rightarrow> ((string \<times> string) \<times> string) list" where
  "conflicting_assignments t =
     filter (\<lambda>(k, a). list_ex (\<lambda>(k', a'). k' = k \<and> a' \<noteq> a) (intf_assignments t))
       (intf_assignments t)"

definition inconsistent_segments :: "topo \<Rightarrow> string list" where
  "inconsistent_segments t =
     filter (\<lambda>sw. case map subnet_of (segment_addrs t sw) of
                    [] \<Rightarrow> False
                  | n # ns \<Rightarrow> n = None \<or> list_ex (\<lambda>m. m \<noteq> n) ns)
       (names_of Switch t)"

definition valid_topo :: "topo \<Rightarrow> bool" where
  "valid_topo t \<longleftrightarrow>
     dangling_links t = [] \<and> conflicting_assignments t = [] \<and> inconsistent_segments t = []"

subsection \<open>Default routes and gateways\<close>

definition host_route :: "topo \<Rightarrow> string \<Rightarrow> string option" where
  "host_route t h = (case map_of (nodes t) h of None \<Rightarrow> None | Some opts \<Rightarrow> defaultRoute opts)"

text \<open>The segment a host is attached to: the far end of its first link.\<close>

definition lan_of :: "topo \<Rightarrow> string \<Rightarrow> string option" where
  "lan_of t h = (case neighbours t h of [] \<Rightarrow> None | sw # rest \<Rightarrow> Some sw)"

text \<open>The addresses, without prefix length, that routers have on the segment of a switch.\<close>

definition lan_gateways :: "topo \<Rightarrow> string \<Rightarrow> string list" where
  "lan_gateways t sw =
     map (takeWhile (\<lambda>c. c \<noteq> CHR ''/''))
       (List.map_filter addr
          (filter (\<lambda>i. peer i = sw \<and> has_role t Router (owner i)) (intfs t)))"

definition routes_via_gateway :: "topo \<Rightarrow> string \<Rightarrow> bool" where
  "routes_via_gateway t h =
     (case lan_of t h of
        None \<Rightarrow> False
      | Some sw \<Rightarrow>
          (case lan_gateways t sw of
             [g] \<Rightarrow> host_route t h = Some (''via '' @ g)
           | _ \<Rightarrow> False))"

subsection \<open>A topology under construction that breaks an invariant\<close>

text \<open>
  Before \<open>build\<close> runs, the topology already holds the switch \<open>s1\<close> and a host on it whose
  address is in \<open>10.0.0.0/8\<close>.
\<close>

definition stray_topo :: topo where
  "stray_topo =
     (let (sw, self) = addSwitch ''s1'' empty_topo;
          (h, self) = addHost ''hX'' (no_opts\<lparr>ip := Some ''10.0.0.1/8''\<rparr>) self
      in addLink h sw None [] self)"

section \<open>The realised network and the reachability probe\<close>

text \<open>
  What \<open>start()\<close> leaves behind, as far as a ping can tell: every node that is not a
  switch has its addressed interfaces, each on the segment of the switch at the other end
  of its link (every link of this topology has a switch at one end); a host has the
  default route it declared; a router forwards, since its \<open>config\<close> has enabled forwarding.
  The script adds no other route, so a node's routing table is its connected networks and,
  on a host, the default route.
\<close>

record rnode =
  rname :: string
  ifaces :: "(string \<times> int \<times> nat) list"
  gateway :: "int option"
  forwards :: bool

definition realise :: "topo \<Rightarrow> rnode list" where
  "realise t =
     map (\<lambda>(n, opts).
            \<lparr> rname = n,
              ifaces = List.map_filter
                (\<lambda>i. case addr i of
                        None \<Rightarrow> None
                      | Some c \<Rightarrow> map_option (\<lambda>(a, p). (peer i, a, p)) (parse_cidr c))
                (node_intfs t n),
              gateway = (case defaultRoute opts of None \<Rightarrow> None | Some r \<Rightarrow> parse_via r),
              forwards = (cls opts = Some LinuxRouter) \<rparr>)
       (filter (\<lambda>(n, opts). \<not> isSwitch opts) (nodes t))"

definition owns :: "rnode \<Rightarrow> int \<Rightarrow> bool" where
  "owns nd d = list_ex (\<lambda>(seg, a, p). a = d) (ifaces nd)"

text \<open>The connected network with the longest prefix that holds \<open>d\<close>, as its segment.\<close>

fun longest_match :: "int \<Rightarrow> (string \<times> int \<times> nat) list \<Rightarrow> (string \<times> nat) option" where
  "longest_match d [] = None"
| "longest_match d ((seg, a, p) # rest) =
     (if in_net d (a, p) then
        (case longest_match d rest of
           None \<Rightarrow> Some (seg, p)
         | Some (seg', p') \<Rightarrow> if p' > p then Some (seg', p') else Some (seg, p))
      else longest_match d rest)"

text \<open>
  The routing decision for destination \<open>d\<close>: the segment to send on and the address to
  hand the packet to. A connected network wins over the default route; the next hop of
  the default route has to be on a connected network itself.
\<close>

definition next_hop :: "rnode \<Rightarrow> int \<Rightarrow> (string \<times> int) option" where
  "next_hop nd d =
     (case longest_match d (ifaces nd) of
        Some (seg, p) \<Rightarrow> Some (seg, d)
      | None \<Rightarrow>
          (case gateway nd of
             None \<Rightarrow> None
           | Some g \<Rightarrow>
               (case longest_match g (ifaces nd) of
                  Some (seg, p) \<Rightarrow> Some (seg, g)
                | None \<Rightarrow> None)))"

text \<open>The node that answers for an address on a segment.\<close>

definition on_segment :: "rnode list \<Rightarrow> string \<Rightarrow> int \<Rightarrow> rnode option" where
  "on_segment net seg a =
     find (\<lambda>nd. list_ex (\<lambda>(seg', a', p). seg' = seg \<and> a' = a) (ifaces nd)) net"

text \<open>
  A packet for \<open>d\<close> leaves \<open>nd\<close>. It arrives when the node it is handed to owns \<open>d\<close>; a
  node that does not own it passes it on only if it forwards; every hop uses up one unit
  of the time to live.
\<close>

fun travels :: "nat \<Rightarrow> rnode list \<Rightarrow> rnode \<Rightarrow> int \<Rightarrow> bool" where
  "travels 0 net nd d = False"
| "travels (Suc ttl) net nd d =
     (case next_hop nd d of
        None \<Rightarrow> False
      | Some (seg, hop) \<Rightarrow>
          (case on_segment net seg hop of
             None \<Rightarrow> False
           | Some m \<Rightarrow>
               if owns m d then True
               else if forwards m then travels ttl net m d
               else False))"

definition delivers :: "rnode list \<Rightarrow> rnode \<Rightarrow> int \<Rightarrow> bool" where
  "delivers net nd d = (owns nd d \<or> travels 64 net nd d)"

text \<open>The address of a node: that of its default interface.\<close>

definition node_IP :: "rnode \<Rightarrow> int option" where
  "node_IP nd = (case ifaces nd of [] \<Rightarrow> None | (seg, a, p) # rest \<Rightarrow> Some a)"

text \<open>A ping succeeds when the request reaches the target and the reply comes back.\<close>

definition ping :: "rnode list \<Rightarrow> string \<Rightarrow> string \<Rightarrow> bool" where
  "ping net src dst =
     (case (find (\<lambda>nd. rname nd = src) net, find (\<lambda>nd. rname nd = dst) net) of
        (Some s, Some d) \<Rightarrow>
          (case (node_IP s, node_IP d) of
             (Some a, Some b) \<Rightarrow> delivers net s b \<and> delivers net d a
           | _ \<Rightarrow> False)
      | _ \<Rightarrow> False)"

text \<open>The ordered pairs of distinct hosts whose ping fails, and the report: their number.\<close>

definition failed_pairs :: "rnode list \<Rightarrow> string list \<Rightarrow> (string \<times> string) list" where
  "failed_pairs net hs =
     filter (\<lambda>(s, d). s \<noteq> d \<and> \<not> ping net s d) (List.product hs hs)"

definition pingAll :: "rnode list \<Rightarrow> string list \<Rightarrow> nat" where
  "pingAll net hs = length (failed_pairs net hs)"

section \<open>The entry point\<close>

text \<open>
  The calls of the script into the engine and the logger: \<open>setLogLevel\<close>, \<open>info\<close>, the
  constructor \<open>Mininet(topo=..., waitConnected=...)\<close>, and \<open>start\<close>, \<open>pingAll\<close> and \<open>stop\<close> of
  the network it returns (the one network of a run, kept in the state). \<open>pingAll\<close> returns
  a report, of whatever type.
\<close>

record ('w, 'r) net_api =
  setLogLevel :: "string \<Rightarrow> ('w, unit) eff"
  info :: "string \<Rightarrow> ('w, unit) eff"
  Mininet :: "topo \<Rightarrow> bool \<Rightarrow> ('w, unit) eff"
  net_start :: "('w, unit) eff"
  net_pingAll :: "('w, 'r) eff"
  net_stop :: "('w, unit) eff"

definition run :: "('w, 'r) net_api \<Rightarrow> ('w, unit) eff" where
  "run api =
     block [
       Mininet api NetworkTopo True,

       info api ''Starting network\<newline>'',
       net_start api,

       info api ''Network configuration:\<newline>'',
       info api ''LAN A: 20.10.172.128/26 (Router A at 20.10.172.129)\<newline>'',
       info api ''  hA1: 20.10.172.130\<newline>'',
       info api ''  hA2: 20.10.172.131\<newline>'',
       info api ''LAN B: 20.10.172.0/25 (Router B at 20.10.172.1)\<newline>'',
       info api ''  hB1: 20.10.172.2\<newline>'',
       info api ''  hB2: 20.10.172.3\<newline>'',
       info api ''LAN C: 20.10.172.192/27 (Router C at 20.10.172.193)\<newline>'',
       info api ''  hC1: 20.10.172.194\<newline>'',
       info api ''  hC2: 20.10.172.195\<newline>'',
       info api ''Router interconnect: 20.10.100.0/24\<newline>'',
       info api ''  rA: 20.10.100.1\<newline>'',
       info api ''  rB: 20.10.100.2\<newline>'',
       info api ''  rC: 20.10.100.3\<newline>\<newline>'',

       info api ''Testing connectivity within each LAN using pingall\<newline>'',
       discard (net_pingAll api),

       info api ''*** Stopping network\<newline>'',
       net_stop api]"

text \<open>
  \<^verbatim>\<open>
  if __name__ == '__main__':
      setLogLevel('info')
      run()
  \<close>
\<close>

definition main :: "('w, 'r) net_api \<Rightarrow> ('w, unit) eff" where
  "main api = block [setLogLevel api ''info'', run api]"

datatype net_call =
    Call_setLogLevel string
  | Call_info string
  | Call_Mininet topo bool
  | Call_start
  | Call_pingAll
  | Call_stop

definition traced_net :: "('w, 'r) net_api \<Rightarrow> (net_call list \<times> 'w, 'r) net_api" where
  "traced_net api =
     \<lparr> setLogLevel = (\<lambda>l. logged (Call_setLogLevel l) (setLogLevel api l)),
       info = (\<lambda>m. logged (Call_info m) (info api m)),
       Mininet = (\<lambda>t w. logged (Call_Mininet t w) (Mininet api t w)),
       net_start = logged Call_start (net_start api),
       net_pingAll = logged Call_pingAll (net_pingAll api),
       net_stop = logged Call_stop (net_stop api) \<rparr>"

text \<open>The calls of a complete run, in order.\<close>

definition run_calls :: "net_call list" where
  "run_calls =
     [Call_Mininet NetworkTopo True,
      Call_info ''Starting network\<newline>'',
      Call_start,
      Call_info ''Network configuration:\<newline>'',
      Call_info ''LAN A: 20.10.172.128/26 (Router A at 20.10.172.129)\<newline>'',
      Call_info ''  hA1: 20.10.172.130\<newline>'',
      Call_info ''  hA2: 20.10.172.131\<newline>'',
      Call_info ''LAN B: 20.10.172.0/25 (Router B at 20.10.172.1)\<newline>'',
      Call_info ''  hB1: 20.10.172.2\<newline>'',
      Call_info ''  hB2: 20.10.172.3\<newline>'',
      Call_info ''LAN C: 20.10.172.192/27 (Router C at 20.10.172.193)\<newline>'',
      Call_info ''  hC1: 20.10.172.194\<newline>'',
      Call_info ''  hC2: 20.10.172.195\<newline>'',
      Call_info ''Router interconnect: 20.10.100.0/24\<newline>'',
      Call_info ''  rA: 20.10.100.1\<newline>'',
      Call_info ''  rB: 20.10.100.2\<newline>'',
      Call_info ''  rC: 20.10.100.3\<newline>\<newline>'',
      Call_info ''Testing connectivity within each LAN using pingall\<newline>'',
      Call_pingAll,
      Call_info ''*** Stopping network\<newline>'',
      Call_stop]"

text \<open>
  An engine that never raises and whose probe reports \<open>k\<close> failed pairs; its state counts
  the networks that are up.
\<close>

definition quiet_engine :: "nat \<Rightarrow> (nat, nat) net_api" where
  "quiet_engine k =
     \<lparr> setLogLevel = (\<lambda>l s. (Inr (), s)),
       info = (\<lambda>m s. (Inr (), s)),
       Mininet = (\<lambda>t w s. (Inr (), s)),
       net_start = (\<lambda>s. (Inr (), Suc s)),
       net_pingAll = (\<lambda>s. (Inr k, s)),
       net_stop = (\<lambda>s. (Inr (), s - 1)) \<rparr>"

subsection \<open>Following a script of calls\<close>

text \<open>
  An effect on a logged state follows the list of calls \<open>cs\<close> when every run of it adds an
  initial segment of \<open>cs\<close> to the log, and a run that returns adds all of \<open>cs\<close>.
\<close>

definition follows :: "'c list \<Rightarrow> ('c list \<times> 's, 'a) eff \<Rightarrow> bool" where
  "follows cs m \<longleftrightarrow>
     (\<forall>tr s. (\<exists>k. fst (snd (m (tr, s))) = tr @ take k cs) \<and>
             (\<forall>a. fst (m (tr, s)) = Inr a \<longrightarrow> fst (snd (m (tr, s))) = tr @ cs))"

section \<open>Properties of LinuxRouter\<close>

lemma ns_node_contract: "sysctl_contract ip_forward ns_node"
  by (auto simp: sysctl_contract_def ns_node_def ns_cmd_def ns_config_def ns_terminate_def
      split: if_splits)

lemma LinuxRouter_config_cases:
  "LinuxRouter_config api ps s =
     (case node_config api ps s of
        (Inl e, s1) \<Rightarrow> (Inl e, s1)
      | (Inr _, s1) \<Rightarrow>
          (case node_cmd api ''sysctl net.ipv4.ip_forward=1'' s1 of
             (Inl e, s2) \<Rightarrow> (Inl e, s2)
           | (Inr _, s2) \<Rightarrow> (Inr (), s2)))"
  by (simp add: LinuxRouter_config_def seq_def discard_def split: prod.splits sum.splits)

lemma LinuxRouter_terminate_cases:
  "LinuxRouter_terminate api s =
     (case node_cmd api ''sysctl net.ipv4.ip_forward=0'' s of
        (Inl e, s1) \<Rightarrow> (Inl e, s1)
      | (Inr _, s1) \<Rightarrow> node_terminate api s1)"
  by (simp add: LinuxRouter_terminate_def seq_def discard_def split: prod.splits sum.splits)

text \<open>
  C3. Activation applies the base node configuration strictly before it enables IP
  forwarding: the first call of \<open>config\<close> is the base class's \<open>config\<close> with the same
  options; the forwarding command is issued second, and only when the base configuration
  has returned. When the base configuration raises, \<open>config\<close> raises that exception from
  the state the base class left, and no forwarding command is issued at all.
\<close>

theorem config_before_forwarding:
  "fst (snd (LinuxRouter_config (traced_node api) ps ([], s))) =
     (case node_config api ps s of
        (Inl e, s1) \<Rightarrow> [Call_config ps]
      | (Inr u, s1) \<Rightarrow> [Call_config ps, Call_cmd ''sysctl net.ipv4.ip_forward=1''])
   \<and> (case node_config api ps s of
        (Inl e, s1) \<Rightarrow> LinuxRouter_config api ps s = (Inl e, s1)
      | (Inr u, s1) \<Rightarrow>
          LinuxRouter_config api ps s =
            discard (node_cmd api ''sysctl net.ipv4.ip_forward=1'') s1)"
  by (simp add: LinuxRouter_config_cases traced_node_def logged_def discard_def
      split: prod.splits sum.splits)

text \<open>
  C4. A \<open>config\<close> call followed by a \<open>terminate\<close> call, both returning, leaves the
  forwarding flag disabled (its value before activation), on every framework that keeps
  the contract above; in between the flag is enabled.
\<close>

theorem config_then_terminate_disabled:
  assumes "sysctl_contract fwd api"
    and "LinuxRouter_config api ps s = (Inr (), s1)"
    and "LinuxRouter_terminate api s1 = (Inr (), s2)"
  shows "fwd s1 \<and> \<not> fwd s2"
proof
  from assms(2) obtain u out where c: "node_cmd api ''sysctl net.ipv4.ip_forward=1'' u = (Inr out, s1)"
    by (auto simp: LinuxRouter_config_cases split: prod.splits sum.splits)
  with assms(1) show "fwd s1"
    unfolding sysctl_contract_def by blast
next
  from assms(3) obtain out u where
    c: "node_cmd api ''sysctl net.ipv4.ip_forward=0'' s1 = (Inr out, u)" and
    t: "node_terminate api u = (Inr (), s2)"
    by (auto simp: LinuxRouter_terminate_cases split: prod.splits sum.splits)
  from assms(1) c have "\<not> fwd u"
    unfolding sysctl_contract_def by blast
  moreover from assms(1) have "fwd (snd (node_terminate api u)) = fwd u"
    unfolding sysctl_contract_def by blast
  ultimately show "\<not> fwd s2"
    using t by simp
qed

theorem config_then_terminate_disabled_witness:
  "sysctl_contract ip_forward ns_node
   \<and> LinuxRouter_config ns_node [(''ip'', ''20.10.100.1/24'')] fresh_ns =
       (Inr (), \<lparr> waiting = False, configured = Some [(''ip'', ''20.10.100.1/24'')],
                  ip_forward = True \<rparr>)
   \<and> LinuxRouter_terminate ns_node
         \<lparr> waiting = False, configured = Some [(''ip'', ''20.10.100.1/24'')],
           ip_forward = True \<rparr> =
       (Inr (), \<lparr> waiting = False, configured = Some [(''ip'', ''20.10.100.1/24'')],
                  ip_forward = False \<rparr>)
   \<and> \<not> ip_forward fresh_ns
   \<and> ip_forward \<lparr> waiting = False, configured = Some [(''ip'', ''20.10.100.1/24'')],
                  ip_forward = True \<rparr>
   \<and> \<not> ip_forward \<lparr> waiting = False, configured = Some [(''ip'', ''20.10.100.1/24'')],
                    ip_forward = False \<rparr>"
proof -
  have c: "LinuxRouter_config ns_node [(''ip'', ''20.10.100.1/24'')] fresh_ns =
       (Inr (), \<lparr> waiting = False, configured = Some [(''ip'', ''20.10.100.1/24'')],
                  ip_forward = True \<rparr>)"
    by (simp add: LinuxRouter_config_cases ns_node_def ns_config_def ns_cmd_def fresh_ns_def)
  have t: "LinuxRouter_terminate ns_node
         \<lparr> waiting = False, configured = Some [(''ip'', ''20.10.100.1/24'')],
           ip_forward = True \<rparr> =
       (Inr (), \<lparr> waiting = False, configured = Some [(''ip'', ''20.10.100.1/24'')],
                  ip_forward = False \<rparr>)"
    by (simp add: LinuxRouter_terminate_cases ns_node_def ns_cmd_def ns_terminate_def)
  have n: "\<not> ip_forward fresh_ns"
    by (simp add: fresh_ns_def)
  from config_then_terminate_disabled [OF ns_node_contract c t] ns_node_contract c t n
  show ?thesis by simp
qed

text \<open>
  C5, as stated, fails: \<open>terminate\<close> has no handler around its two calls, so it can itself
  fail. On a node that was never configured and is waiting for a command sent to its
  shell, the disabling command fails its assertion; \<open>terminate\<close> raises that error, and the
  base class's \<open>terminate\<close> is never called.
\<close>

theorem terminate_can_fail_counterexample:
  "LinuxRouter_terminate ns_node busy_ns = (Inl (Raised ''AssertionError''), busy_ns)
   \<and> fst (snd (LinuxRouter_terminate (traced_node ns_node) ([], busy_ns))) =
       [Call_cmd ''sysctl net.ipv4.ip_forward=0'']"
  by (simp add: LinuxRouter_terminate_cases ns_node_def ns_cmd_def busy_ns_def
      traced_node_def logged_def)

text \<open>
  C5, amended. On every framework that keeps the contract above (a \<open>sysctl\<close> command
  that returns has set the flag as asked; the base class's \<open>config\<close> and \<open>terminate\<close>
  leave the flag alone), \<open>terminate\<close> does not depend on an earlier \<open>config\<close>: from any
  state, it issues the disabling command first. When that command returns, the outcome of
  \<open>terminate\<close> is the outcome of the base class's \<open>terminate\<close>, and the forwarding flag is
  disabled afterwards (so a flag that was already disabled stays disabled). When the
  command raises, \<open>terminate\<close> raises the same exception and the base class's \<open>terminate\<close>
  is not run.
\<close>

theorem terminate_without_config:
  assumes "sysctl_contract fwd api"
  shows "(case node_cmd api ''sysctl net.ipv4.ip_forward=0'' s of
            (Inl e, s1) \<Rightarrow> LinuxRouter_terminate api s = (Inl e, s1)
          | (Inr out, s1) \<Rightarrow>
              LinuxRouter_terminate api s = node_terminate api s1
              \<and> \<not> fwd (snd (LinuxRouter_terminate api s)))"
proof (cases "node_cmd api ''sysctl net.ipv4.ip_forward=0'' s")
  case (Pair r s1)
  show ?thesis
  proof (cases r)
    case (Inl e)
    with Pair show ?thesis
      by (simp add: LinuxRouter_terminate_cases)
  next
    case (Inr out)
    with Pair assms have "\<not> fwd s1"
      unfolding sysctl_contract_def by blast
    moreover from assms have "fwd (snd (node_terminate api s1)) = fwd s1"
      unfolding sysctl_contract_def by blast
    ultimately show ?thesis
      using Pair Inr by (simp add: LinuxRouter_terminate_cases)
  qed
qed

theorem terminate_without_config_witness:
  "sysctl_contract ip_forward ns_node
   \<and> configured fresh_ns = None
   \<and> LinuxRouter_terminate ns_node fresh_ns =
       (Inr (), \<lparr> waiting = False, configured = None, ip_forward = False \<rparr>)
   \<and> \<not> ip_forward (snd (LinuxRouter_terminate ns_node fresh_ns))"
proof -
  have c: "node_cmd ns_node ''sysctl net.ipv4.ip_forward=0'' fresh_ns =
             (Inr ''net.ipv4.ip_forward = 0'', fresh_ns)"
    by (simp add: ns_node_def ns_cmd_def fresh_ns_def)
  have t: "node_terminate ns_node fresh_ns =
             (Inr (), \<lparr> waiting = False, configured = None, ip_forward = False \<rparr>)"
    by (simp add: ns_node_def ns_terminate_def fresh_ns_def)
  have n: "configured fresh_ns = None"
    by (simp add: fresh_ns_def)
  from terminate_without_config [OF ns_node_contract, of fresh_ns] ns_node_contract n
  show ?thesis by (simp add: c t)
qed

section \<open>Properties of NetworkTopo\<close>

subsection \<open>The declaration, evaluated\<close>

lemma NetworkTopo_nodes:
  "nodes NetworkTopo =
    [(''rA'', \<lparr>cls = Some LinuxRouter, ip = Some ''20.10.100.1/24'', defaultRoute = None, isSwitch = False\<rparr>),
     (''rB'', \<lparr>cls = Some LinuxRouter, ip = Some ''20.10.100.2/24'', defaultRoute = None, isSwitch = False\<rparr>),
     (''rC'', \<lparr>cls = Some LinuxRouter, ip = Some ''20.10.100.3/24'', defaultRoute = None, isSwitch = False\<rparr>),
     (''s1'', \<lparr>cls = None, ip = None, defaultRoute = None, isSwitch = True\<rparr>),
     (''s2'', \<lparr>cls = None, ip = None, defaultRoute = None, isSwitch = True\<rparr>),
     (''s3'', \<lparr>cls = None, ip = None, defaultRoute = None, isSwitch = True\<rparr>),
     (''s4'', \<lparr>cls = None, ip = None, defaultRoute = None, isSwitch = True\<rparr>),
     (''hA1'', \<lparr>cls = None, ip = Some ''20.10.172.130/26'', defaultRoute = Some ''via 20.10.172.129'', isSwitch = False\<rparr>),
     (''hA2'', \<lparr>cls = None, ip = Some ''20.10.172.131/26'', defaultRoute = Some ''via 20.10.172.129'', isSwitch = False\<rparr>),
     (''hB1'', \<lparr>cls = None, ip = Some ''20.10.172.2/25'', defaultRoute = Some ''via 20.10.172.1'', isSwitch = False\<rparr>),
     (''hB2'', \<lparr>cls = None, ip = Some ''20.10.172.3/25'', defaultRoute = Some ''via 20.10.172.1'', isSwitch = False\<rparr>),
     (''hC1'', \<lparr>cls = None, ip = Some ''20.10.172.194/27'', defaultRoute = Some ''via 20.10.172.193'', isSwitch = False\<rparr>),
     (''hC2'', \<lparr>cls = None, ip = Some ''20.10.172.195/27'', defaultRoute = Some ''via 20.10.172.193'', isSwitch = False\<rparr>)]"
  by (simp add: NetworkTopo_def build_def addNode_def addHost_def addSwitch_def addLink_def
      empty_topo_def no_opts_def)

lemma build_links:
  "links (build t) = links t @
      [\<lparr>node1 = ''s4'', node2 = ''rA'', intfName2 = Some ''rA-eth1'', params2 = [(''ip'', ''20.10.100.1/24'')]\<rparr>,
       \<lparr>node1 = ''s4'', node2 = ''rB'', intfName2 = Some ''rB-eth1'', params2 = [(''ip'', ''20.10.100.2/24'')]\<rparr>,
       \<lparr>node1 = ''s4'', node2 = ''rC'', intfName2 = Some ''rC-eth1'', params2 = [(''ip'', ''20.10.100.3/24'')]\<rparr>,
       \<lparr>node1 = ''s1'', node2 = ''rA'', intfName2 = Some ''rA-eth0'', params2 = [(''ip'', ''20.10.172.129/26'')]\<rparr>,
       \<lparr>node1 = ''s2'', node2 = ''rB'', intfName2 = Some ''rB-eth0'', params2 = [(''ip'', ''20.10.172.1/25'')]\<rparr>,
       \<lparr>node1 = ''s3'', node2 = ''rC'', intfName2 = Some ''rC-eth0'', params2 = [(''ip'', ''20.10.172.193/27'')]\<rparr>,
       \<lparr>node1 = ''hA1'', node2 = ''s1'', intfName2 = None, params2 = []\<rparr>,
       \<lparr>node1 = ''hA2'', node2 = ''s1'', intfName2 = None, params2 = []\<rparr>,
       \<lparr>node1 = ''hB1'', node2 = ''s2'', intfName2 = None, params2 = []\<rparr>,
       \<lparr>node1 = ''hB2'', node2 = ''s2'', intfName2 = None, params2 = []\<rparr>,
       \<lparr>node1 = ''hC1'', node2 = ''s3'', intfName2 = None, params2 = []\<rparr>,
       \<lparr>node1 = ''hC2'', node2 = ''s3'', intfName2 = None, params2 = []\<rparr>]"
  by (simp add: build_def addNode_def addHost_def addSwitch_def addLink_def)

lemma NetworkTopo_links:
  "links NetworkTopo =
      [\<lparr>node1 = ''s4'', node2 = ''rA'', intfName2 = Some ''rA-eth1'', params2 = [(''ip'', ''20.10.100.1/24'')]\<rparr>,
       \<lparr>node1 = ''s4'', node2 = ''rB'', intfName2 = Some ''rB-eth1'', params2 = [(''ip'', ''20.10.100.2/24'')]\<rparr>,
       \<lparr>node1 = ''s4'', node2 = ''rC'', intfName2 = Some ''rC-eth1'', params2 = [(''ip'', ''20.10.100.3/24'')]\<rparr>,
       \<lparr>node1 = ''s1'', node2 = ''rA'', intfName2 = Some ''rA-eth0'', params2 = [(''ip'', ''20.10.172.129/26'')]\<rparr>,
       \<lparr>node1 = ''s2'', node2 = ''rB'', intfName2 = Some ''rB-eth0'', params2 = [(''ip'', ''20.10.172.1/25'')]\<rparr>,
       \<lparr>node1 = ''s3'', node2 = ''rC'', intfName2 = Some ''rC-eth0'', params2 = [(''ip'', ''20.10.172.193/27'')]\<rparr>,
       \<lparr>node1 = ''hA1'', node2 = ''s1'', intfName2 = None, params2 = []\<rparr>,
       \<lparr>node1 = ''hA2'', node2 = ''s1'', intfName2 = None, params2 = []\<rparr>,
       \<lparr>node1 = ''hB1'', node2 = ''s2'', intfName2 = None, params2 = []\<rparr>,
       \<lparr>node1 = ''hB2'', node2 = ''s2'', intfName2 = None, params2 = []\<rparr>,
       \<lparr>node1 = ''hC1'', node2 = ''s3'', intfName2 = None, params2 = []\<rparr>,
       \<lparr>node1 = ''hC2'', node2 = ''s3'', intfName2 = None, params2 = []\<rparr>]"
  by (simp add: NetworkTopo_def build_links empty_topo_def)

lemma names_of_values: "names_of Router NetworkTopo = [''rA'', ''rB'', ''rC'']"
  "names_of Switch NetworkTopo = [''s1'', ''s2'', ''s3'', ''s4'']"
  "names_of Host NetworkTopo = [''hA1'', ''hA2'', ''hB1'', ''hB2'', ''hC1'', ''hC2'']"
  by (simp_all add: names_of_def NetworkTopo_nodes role_of_def)

lemma intfs_value: "intfs NetworkTopo = 
 [\<lparr>owner = ''rA'', peer = ''s4'', addr = Some ''20.10.100.1/24''\<rparr>,
  \<lparr>owner = ''rA'', peer = ''s1'', addr = Some ''20.10.172.129/26''\<rparr>,
  \<lparr>owner = ''rB'', peer = ''s4'', addr = Some ''20.10.100.2/24''\<rparr>,
  \<lparr>owner = ''rB'', peer = ''s2'', addr = Some ''20.10.172.1/25''\<rparr>,
  \<lparr>owner = ''rC'', peer = ''s4'', addr = Some ''20.10.100.3/24''\<rparr>,
  \<lparr>owner = ''rC'', peer = ''s3'', addr = Some ''20.10.172.193/27''\<rparr>,
  \<lparr>owner = ''hA1'', peer = ''s1'', addr = Some ''20.10.172.130/26''\<rparr>,
  \<lparr>owner = ''hA2'', peer = ''s1'', addr = Some ''20.10.172.131/26''\<rparr>,
  \<lparr>owner = ''hB1'', peer = ''s2'', addr = Some ''20.10.172.2/25''\<rparr>,
  \<lparr>owner = ''hB2'', peer = ''s2'', addr = Some ''20.10.172.3/25''\<rparr>,
  \<lparr>owner = ''hC1'', peer = ''s3'', addr = Some ''20.10.172.194/27''\<rparr>,
  \<lparr>owner = ''hC2'', peer = ''s3'', addr = Some ''20.10.172.195/27''\<rparr>]"
  by (simp add: intfs_def node_intfs_def link_ends_def NetworkTopo_nodes NetworkTopo_links)

lemma segment_values:
  "segment_addrs NetworkTopo ''s1'' = [''20.10.172.129/26'', ''20.10.172.130/26'', ''20.10.172.131/26'']"
  "segment_addrs NetworkTopo ''s2'' = [''20.10.172.1/25'', ''20.10.172.2/25'', ''20.10.172.3/25'']"
  "segment_addrs NetworkTopo ''s3'' = [''20.10.172.193/27'', ''20.10.172.194/27'', ''20.10.172.195/27'']"
  "segment_addrs NetworkTopo ''s4'' = [''20.10.100.1/24'', ''20.10.100.2/24'', ''20.10.100.3/24'']"
  by (simp_all add: segment_addrs_def intfs_value List.map_filter_simps)

lemma parse_simps:
  "parse_cidr ''20.10.100.1/24'' = Some (336225281, 24)"
  "parse_cidr ''20.10.100.2/24'' = Some (336225282, 24)"
  "parse_cidr ''20.10.100.3/24'' = Some (336225283, 24)"
  "parse_cidr ''20.10.172.129/26'' = Some (336243841, 26)"
  "parse_cidr ''20.10.172.130/26'' = Some (336243842, 26)"
  "parse_cidr ''20.10.172.131/26'' = Some (336243843, 26)"
  "parse_cidr ''20.10.172.1/25'' = Some (336243713, 25)"
  "parse_cidr ''20.10.172.2/25'' = Some (336243714, 25)"
  "parse_cidr ''20.10.172.3/25'' = Some (336243715, 25)"
  "parse_cidr ''20.10.172.193/27'' = Some (336243905, 27)"
  "parse_cidr ''20.10.172.194/27'' = Some (336243906, 27)"
  "parse_cidr ''20.10.172.195/27'' = Some (336243907, 27)"
  "parse_cidr ''20.10.172.128/26'' = Some (336243840, 26)"
  "parse_cidr ''20.10.172.0/25'' = Some (336243712, 25)"
  "parse_cidr ''20.10.172.192/27'' = Some (336243904, 27)"
  "parse_cidr ''20.10.100.0/24'' = Some (336225280, 24)"
  "parse_via ''via 20.10.172.129'' = Some 336243841"
  "parse_via ''via 20.10.172.1'' = Some 336243713"
  "parse_via ''via 20.10.172.193'' = Some 336243905"
  by (simp_all add: parse_via_def parse_cidr_def parse_ip_def parse_nat_def digit_of_def ipv4_def)

lemma subnet_simps:
  "subnet_of ''20.10.100.1/24'' = Some (ipv4 20 10 100 0, 24)"
  "subnet_of ''20.10.100.2/24'' = Some (ipv4 20 10 100 0, 24)"
  "subnet_of ''20.10.100.3/24'' = Some (ipv4 20 10 100 0, 24)"
  "subnet_of ''20.10.172.129/26'' = Some (ipv4 20 10 172 128, 26)"
  "subnet_of ''20.10.172.130/26'' = Some (ipv4 20 10 172 128, 26)"
  "subnet_of ''20.10.172.131/26'' = Some (ipv4 20 10 172 128, 26)"
  "subnet_of ''20.10.172.1/25'' = Some (ipv4 20 10 172 0, 25)"
  "subnet_of ''20.10.172.2/25'' = Some (ipv4 20 10 172 0, 25)"
  "subnet_of ''20.10.172.3/25'' = Some (ipv4 20 10 172 0, 25)"
  "subnet_of ''20.10.172.193/27'' = Some (ipv4 20 10 172 192, 27)"
  "subnet_of ''20.10.172.194/27'' = Some (ipv4 20 10 172 192, 27)"
  "subnet_of ''20.10.172.195/27'' = Some (ipv4 20 10 172 192, 27)"
  by (simp_all add: subnet_of_def network_def parse_simps ipv4_def)

lemma lan_of_values:
  "lan_of NetworkTopo ''hA1'' = Some ''s1''" "lan_of NetworkTopo ''hA2'' = Some ''s1''"
  "lan_of NetworkTopo ''hB1'' = Some ''s2''" "lan_of NetworkTopo ''hB2'' = Some ''s2''"
  "lan_of NetworkTopo ''hC1'' = Some ''s3''" "lan_of NetworkTopo ''hC2'' = Some ''s3''"
  by (simp_all add: lan_of_def neighbours_def NetworkTopo_links)

text \<open>
  C6. The declared topology has exactly the three routers \<open>rA\<close>, \<open>rB\<close>, \<open>rC\<close>, the three
  LAN switches \<open>s1\<close>, \<open>s2\<close>, \<open>s3\<close>, the six hosts, and the one backbone switch \<open>s4\<close>; each
  router is linked to the backbone switch and to one LAN switch, and each host to exactly
  one LAN switch.
\<close>

theorem topology_shape:
  "names_of Router NetworkTopo = [''rA'', ''rB'', ''rC'']
   \<and> names_of Switch NetworkTopo = [''s1'', ''s2'', ''s3'', ''s4'']
   \<and> lan_switches NetworkTopo = [''s1'', ''s2'', ''s3'']
   \<and> backbone_switches NetworkTopo = [''s4'']
   \<and> names_of Host NetworkTopo = [''hA1'', ''hA2'', ''hB1'', ''hB2'', ''hC1'', ''hC2'']
   \<and> length (nodes NetworkTopo) = 13
   \<and> map (neighbours NetworkTopo) (names_of Router NetworkTopo) =
        [[''s4'', ''s1''], [''s4'', ''s2''], [''s4'', ''s3'']]
   \<and> map (neighbours NetworkTopo) (names_of Host NetworkTopo) =
        [[''s1''], [''s1''], [''s2''], [''s2''], [''s3''], [''s3'']]"
  by (simp add: names_of_values lan_switches_def backbone_switches_def neighbours_def
      has_role_def role_of_def NetworkTopo_nodes NetworkTopo_links)

text \<open>
  C7. The addresses of the built topology are those of the addressing plan. Every
  interface carries the address the plan gives it; the addresses on the switches
  \<open>s1\<close>, \<open>s2\<close>, \<open>s3\<close>, \<open>s4\<close> lie in \<open>20.10.172.128/26\<close>, \<open>20.10.172.0/25\<close>,
  \<open>20.10.172.192/27\<close> and \<open>20.10.100.0/24\<close>; the gateways of the three LANs are
  \<open>20.10.172.129\<close>, \<open>20.10.172.1\<close> and \<open>20.10.172.193\<close>; and the default route of every
  host is \<open>via\<close> the gateway of its own LAN.
\<close>

theorem addressing_plan:
  "map (\<lambda>i. (owner i, peer i, addr i)) (intfs NetworkTopo) =
     [(''rA'', ''s4'', Some ''20.10.100.1/24''), (''rA'', ''s1'', Some ''20.10.172.129/26''),
      (''rB'', ''s4'', Some ''20.10.100.2/24''), (''rB'', ''s2'', Some ''20.10.172.1/25''),
      (''rC'', ''s4'', Some ''20.10.100.3/24''), (''rC'', ''s3'', Some ''20.10.172.193/27''),
      (''hA1'', ''s1'', Some ''20.10.172.130/26''), (''hA2'', ''s1'', Some ''20.10.172.131/26''),
      (''hB1'', ''s2'', Some ''20.10.172.2/25''), (''hB2'', ''s2'', Some ''20.10.172.3/25''),
      (''hC1'', ''s3'', Some ''20.10.172.194/27''), (''hC2'', ''s3'', Some ''20.10.172.195/27'')]
   \<and> map (\<lambda>l. (node2 l, intfName2 l, params2 l)) (take 6 (links NetworkTopo)) =
     [(''rA'', Some ''rA-eth1'', [(''ip'', ''20.10.100.1/24'')]),
      (''rB'', Some ''rB-eth1'', [(''ip'', ''20.10.100.2/24'')]),
      (''rC'', Some ''rC-eth1'', [(''ip'', ''20.10.100.3/24'')]),
      (''rA'', Some ''rA-eth0'', [(''ip'', ''20.10.172.129/26'')]),
      (''rB'', Some ''rB-eth0'', [(''ip'', ''20.10.172.1/25'')]),
      (''rC'', Some ''rC-eth0'', [(''ip'', ''20.10.172.193/27'')])]
   \<and> map (\<lambda>(n, opts). (n, ip opts)) (nodes NetworkTopo) =
     [(''rA'', Some ''20.10.100.1/24''), (''rB'', Some ''20.10.100.2/24''),
      (''rC'', Some ''20.10.100.3/24''),
      (''s1'', None), (''s2'', None), (''s3'', None), (''s4'', None),
      (''hA1'', Some ''20.10.172.130/26''), (''hA2'', Some ''20.10.172.131/26''),
      (''hB1'', Some ''20.10.172.2/25''), (''hB2'', Some ''20.10.172.3/25''),
      (''hC1'', Some ''20.10.172.194/27''), (''hC2'', Some ''20.10.172.195/27'')]
   \<and> map (\<lambda>sw. remdups (map subnet_of (segment_addrs NetworkTopo sw)))
         [''s1'', ''s2'', ''s3'', ''s4''] =
     [[parse_cidr ''20.10.172.128/26''], [parse_cidr ''20.10.172.0/25''],
      [parse_cidr ''20.10.172.192/27''], [parse_cidr ''20.10.100.0/24'']]
   \<and> map (lan_gateways NetworkTopo) [''s1'', ''s2'', ''s3''] =
     [[''20.10.172.129''], [''20.10.172.1''], [''20.10.172.193'']]
   \<and> map (host_route NetworkTopo) (names_of Host NetworkTopo) =
     [Some ''via 20.10.172.129'', Some ''via 20.10.172.129'',
      Some ''via 20.10.172.1'', Some ''via 20.10.172.1'',
      Some ''via 20.10.172.193'', Some ''via 20.10.172.193'']
   \<and> list_all (routes_via_gateway NetworkTopo) (names_of Host NetworkTopo)"
proof -
  have gw: "map (lan_gateways NetworkTopo) [''s1'', ''s2'', ''s3''] =
     [[''20.10.172.129''], [''20.10.172.1''], [''20.10.172.193'']]"
    by (simp add: lan_gateways_def intfs_value has_role_def role_of_def NetworkTopo_nodes
        List.map_filter_simps)
  have rt: "map (host_route NetworkTopo) (names_of Host NetworkTopo) =
     [Some ''via 20.10.172.129'', Some ''via 20.10.172.129'',
      Some ''via 20.10.172.1'', Some ''via 20.10.172.1'',
      Some ''via 20.10.172.193'', Some ''via 20.10.172.193'']"
    by (simp add: names_of_values host_route_def NetworkTopo_nodes)
  have via: "list_all (routes_via_gateway NetworkTopo) (names_of Host NetworkTopo)"
    using gw rt by (simp add: names_of_values routes_via_gateway_def lan_of_values)
  have nets: "map (\<lambda>sw. remdups (map subnet_of (segment_addrs NetworkTopo sw)))
         [''s1'', ''s2'', ''s3'', ''s4''] =
     [[parse_cidr ''20.10.172.128/26''], [parse_cidr ''20.10.172.0/25''],
      [parse_cidr ''20.10.172.192/27''], [parse_cidr ''20.10.100.0/24'']]"
    by (simp add: segment_values subnet_simps parse_simps ipv4_def)
  have lk: "map (\<lambda>l. (node2 l, intfName2 l, params2 l)) (take 6 (links NetworkTopo)) =
     [(''rA'', Some ''rA-eth1'', [(''ip'', ''20.10.100.1/24'')]),
      (''rB'', Some ''rB-eth1'', [(''ip'', ''20.10.100.2/24'')]),
      (''rC'', Some ''rC-eth1'', [(''ip'', ''20.10.100.3/24'')]),
      (''rA'', Some ''rA-eth0'', [(''ip'', ''20.10.172.129/26'')]),
      (''rB'', Some ''rB-eth0'', [(''ip'', ''20.10.172.1/25'')]),
      (''rC'', Some ''rC-eth0'', [(''ip'', ''20.10.172.193/27'')])]"
    by (simp add: NetworkTopo_links)
  show ?thesis
    using gw rt via nets lk by (simp add: intfs_value NetworkTopo_nodes)
qed

text \<open>
  C9. On each of the four switches, every address assigned to an attached interface
  lies in one common subnet: \<open>20.10.172.128/26\<close> on \<open>s1\<close>, \<open>20.10.172.0/25\<close> on \<open>s2\<close>,
  \<open>20.10.172.192/27\<close> on \<open>s3\<close> and \<open>20.10.100.0/24\<close> on \<open>s4\<close>; no segment mixes prefixes.
\<close>

theorem segments_consistent:
  "map (\<lambda>sw. (sw, map subnet_of (segment_addrs NetworkTopo sw))) (names_of Switch NetworkTopo) =
     [(''s1'', replicate 3 (Some (ipv4 20 10 172 128, 26))),
      (''s2'', replicate 3 (Some (ipv4 20 10 172 0, 25))),
      (''s3'', replicate 3 (Some (ipv4 20 10 172 192, 27))),
      (''s4'', replicate 3 (Some (ipv4 20 10 100 0, 24)))]
   \<and> inconsistent_segments NetworkTopo = []"
  by (simp add: names_of_values segment_values subnet_simps inconsistent_segments_def
      numeral_3_eq_3)

text \<open>
  C10. The topology assigns twelve addresses, each of them well formed, and as numbers
  they are pairwise distinct: no two interfaces carry the same address.
\<close>

theorem addresses_distinct:
  "length (assigned_addrs NetworkTopo) = 12
   \<and> list_all (\<lambda>a. parse_cidr a \<noteq> None) (assigned_addrs NetworkTopo)
   \<and> distinct (map (map_option fst \<circ> parse_cidr) (assigned_addrs NetworkTopo))
   \<and> map length (map (segment_addrs NetworkTopo) [''s1'', ''s2'', ''s3'', ''s4'']) = [3, 3, 3, 3]"
  by (simp add: assigned_addrs_def intfs_value segment_values List.map_filter_simps parse_simps)

subsection \<open>Validation\<close>

lemma valid_NetworkTopo: "valid_topo NetworkTopo"
  by (simp add: valid_topo_def dangling_links_def conflicting_assignments_def
      intf_assignments_def inconsistent_segments_def names_of_values segment_values subnet_simps
      NetworkTopo_nodes NetworkTopo_links)

text \<open>
  C2, as stated, fails: \<open>build\<close> checks nothing and has no way to fail. Run on a topology
  that already has a host of another subnet on \<open>s1\<close>, it returns a topology whose segment
  \<open>s1\<close> mixes subnets.
\<close>

theorem build_no_validation_counterexample:
  "map subnet_of (segment_addrs (build stray_topo) ''s1'') =
     [Some (ipv4 10 0 0 0, 8), Some (ipv4 20 10 172 128, 26),
      Some (ipv4 20 10 172 128, 26), Some (ipv4 20 10 172 128, 26)]
   \<and> inconsistent_segments (build stray_topo) = [''s1'']
   \<and> \<not> valid_topo (build stray_topo)"
proof -
  have n: "nodes (build stray_topo) =
    [(''s1'', \<lparr>cls = None, ip = None, defaultRoute = None, isSwitch = True\<rparr>),
     (''hX'', \<lparr>cls = None, ip = Some ''10.0.0.1/8'', defaultRoute = None, isSwitch = False\<rparr>),
     (''rA'', \<lparr>cls = Some LinuxRouter, ip = Some ''20.10.100.1/24'', defaultRoute = None, isSwitch = False\<rparr>),
     (''rB'', \<lparr>cls = Some LinuxRouter, ip = Some ''20.10.100.2/24'', defaultRoute = None, isSwitch = False\<rparr>),
     (''rC'', \<lparr>cls = Some LinuxRouter, ip = Some ''20.10.100.3/24'', defaultRoute = None, isSwitch = False\<rparr>),
     (''s2'', \<lparr>cls = None, ip = None, defaultRoute = None, isSwitch = True\<rparr>),
     (''s3'', \<lparr>cls = None, ip = None, defaultRoute = None, isSwitch = True\<rparr>),
     (''s4'', \<lparr>cls = None, ip = None, defaultRoute = None, isSwitch = True\<rparr>),
     (''hA1'', \<lparr>cls = None, ip = Some ''20.10.172.130/26'', defaultRoute = Some ''via 20.10.172.129'', isSwitch = False\<rparr>),
     (''hA2'', \<lparr>cls = None, ip = Some ''20.10.172.131/26'', defaultRoute = Some ''via 20.10.172.129'', isSwitch = False\<rparr>),
     (''hB1'', \<lparr>cls = None, ip = Some ''20.10.172.2/25'', defaultRoute = Some ''via 20.10.172.1'', isSwitch = False\<rparr>),
     (''hB2'', \<lparr>cls = None, ip = Some ''20.10.172.3/25'', defaultRoute = Some ''via 20.10.172.1'', isSwitch = False\<rparr>),
     (''hC1'', \<lparr>cls = None, ip = Some ''20.10.172.194/27'', defaultRoute = Some ''via 20.10.172.193'', isSwitch = False\<rparr>),
     (''hC2'', \<lparr>cls = None, ip = Some ''20.10.172.195/27'', defaultRoute = Some ''via 20.10.172.193'', isSwitch = False\<rparr>)]"
    by (simp add: build_def stray_topo_def addNode_def addHost_def addSwitch_def addLink_def
        empty_topo_def no_opts_def)
  have l: "links stray_topo = [\<lparr>node1 = ''hX'', node2 = ''s1'', intfName2 = None, params2 = []\<rparr>]"
    by (simp add: stray_topo_def addNode_def addHost_def addSwitch_def addLink_def
        empty_topo_def)
  have x: "subnet_of ''10.0.0.1/8'' = Some (ipv4 10 0 0 0, 8)"
    by (simp add: subnet_of_def network_def parse_cidr_def parse_ip_def parse_nat_def
        digit_of_def ipv4_def)
  have sw: "names_of Switch (build stray_topo) = [''s1'', ''s2'', ''s3'', ''s4'']"
    by (simp add: names_of_def n role_of_def)
  have s1: "segment_addrs (build stray_topo) ''s1'' =
      [''10.0.0.1/8'', ''20.10.172.129/26'', ''20.10.172.130/26'', ''20.10.172.131/26'']"
    and s2: "segment_addrs (build stray_topo) ''s2'' =
      [''20.10.172.1/25'', ''20.10.172.2/25'', ''20.10.172.3/25'']"
    and s3: "segment_addrs (build stray_topo) ''s3'' =
      [''20.10.172.193/27'', ''20.10.172.194/27'', ''20.10.172.195/27'']"
    and s4: "segment_addrs (build stray_topo) ''s4'' =
      [''20.10.100.1/24'', ''20.10.100.2/24'', ''20.10.100.3/24'']"
    by (simp_all add: segment_addrs_def intfs_def node_intfs_def link_ends_def n build_links l
        List.map_filter_simps)
  have bad: "inconsistent_segments (build stray_topo) = [''s1'']"
    by (simp add: inconsistent_segments_def sw s1 s2 s3 s4 x subnet_simps ipv4_def)
  show ?thesis
    using bad by (simp add: valid_topo_def s1 x subnet_simps)
qed

text \<open>
  C2, amended. \<open>build\<close> validates nothing and cannot fail: on any topology it keeps the
  links that are there and appends its own twelve. The topology it builds from the empty
  one, which is what \<open>NetworkTopo()\<close> does, has no dangling link, no interface with two
  addresses and no segment that mixes subnets.
\<close>

theorem build_declares_valid:
  "links (build t) = links t @ links NetworkTopo
   \<and> dangling_links (build empty_topo) = []
   \<and> conflicting_assignments (build empty_topo) = []
   \<and> inconsistent_segments (build empty_topo) = []
   \<and> valid_topo (build empty_topo)"
proof -
  have "links (build t) = links t @ links NetworkTopo"
    by (simp add: build_links NetworkTopo_links)
  moreover have "valid_topo (build empty_topo)"
    using valid_NetworkTopo by (simp add: NetworkTopo_def)
  ultimately show ?thesis
    by (simp add: valid_topo_def)
qed

section \<open>Properties of the probe\<close>

lemma realise_value: "realise NetworkTopo =
 [\<lparr>rname = ''rA'', ifaces = [(''s4'', 336225281, 24), (''s1'', 336243841, 26)], gateway = None, forwards = True\<rparr>,
  \<lparr>rname = ''rB'', ifaces = [(''s4'', 336225282, 24), (''s2'', 336243713, 25)], gateway = None, forwards = True\<rparr>,
  \<lparr>rname = ''rC'', ifaces = [(''s4'', 336225283, 24), (''s3'', 336243905, 27)], gateway = None, forwards = True\<rparr>,
  \<lparr>rname = ''hA1'', ifaces = [(''s1'', 336243842, 26)], gateway = Some 336243841, forwards = False\<rparr>,
  \<lparr>rname = ''hA2'', ifaces = [(''s1'', 336243843, 26)], gateway = Some 336243841, forwards = False\<rparr>,
  \<lparr>rname = ''hB1'', ifaces = [(''s2'', 336243714, 25)], gateway = Some 336243713, forwards = False\<rparr>,
  \<lparr>rname = ''hB2'', ifaces = [(''s2'', 336243715, 25)], gateway = Some 336243713, forwards = False\<rparr>,
  \<lparr>rname = ''hC1'', ifaces = [(''s3'', 336243906, 27)], gateway = Some 336243905, forwards = False\<rparr>,
  \<lparr>rname = ''hC2'', ifaces = [(''s3'', 336243907, 27)], gateway = Some 336243905, forwards = False\<rparr>]"
  by (simp add: realise_def node_intfs_def link_ends_def NetworkTopo_nodes NetworkTopo_links
      List.map_filter_simps parse_simps)

lemma travels_numeral:
  "travels (numeral k) net nd d =
     (case next_hop nd d of
        None \<Rightarrow> False
      | Some (seg, hop) \<Rightarrow>
          (case on_segment net seg hop of
             None \<Rightarrow> False
           | Some m \<Rightarrow>
               if owns m d then True
               else if forwards m then travels (pred_numeral k) net m d
               else False))"
  by (simp add: numeral_eq_Suc)

lemma ping_table:
  "ping (realise NetworkTopo) ''hA1'' ''hA1''"
  "ping (realise NetworkTopo) ''hA1'' ''hA2''"
  "\<not> ping (realise NetworkTopo) ''hA1'' ''hB1''"
  "\<not> ping (realise NetworkTopo) ''hA1'' ''hB2''"
  "\<not> ping (realise NetworkTopo) ''hA1'' ''hC1''"
  "\<not> ping (realise NetworkTopo) ''hA1'' ''hC2''"
  "ping (realise NetworkTopo) ''hA2'' ''hA1''"
  "ping (realise NetworkTopo) ''hA2'' ''hA2''"
  "\<not> ping (realise NetworkTopo) ''hA2'' ''hB1''"
  "\<not> ping (realise NetworkTopo) ''hA2'' ''hB2''"
  "\<not> ping (realise NetworkTopo) ''hA2'' ''hC1''"
  "\<not> ping (realise NetworkTopo) ''hA2'' ''hC2''"
  "\<not> ping (realise NetworkTopo) ''hB1'' ''hA1''"
  "\<not> ping (realise NetworkTopo) ''hB1'' ''hA2''"
  "ping (realise NetworkTopo) ''hB1'' ''hB1''"
  "ping (realise NetworkTopo) ''hB1'' ''hB2''"
  "\<not> ping (realise NetworkTopo) ''hB1'' ''hC1''"
  "\<not> ping (realise NetworkTopo) ''hB1'' ''hC2''"
  "\<not> ping (realise NetworkTopo) ''hB2'' ''hA1''"
  "\<not> ping (realise NetworkTopo) ''hB2'' ''hA2''"
  "ping (realise NetworkTopo) ''hB2'' ''hB1''"
  "ping (realise NetworkTopo) ''hB2'' ''hB2''"
  "\<not> ping (realise NetworkTopo) ''hB2'' ''hC1''"
  "\<not> ping (realise NetworkTopo) ''hB2'' ''hC2''"
  "\<not> ping (realise NetworkTopo) ''hC1'' ''hA1''"
  "\<not> ping (realise NetworkTopo) ''hC1'' ''hA2''"
  "\<not> ping (realise NetworkTopo) ''hC1'' ''hB1''"
  "\<not> ping (realise NetworkTopo) ''hC1'' ''hB2''"
  "ping (realise NetworkTopo) ''hC1'' ''hC1''"
  "ping (realise NetworkTopo) ''hC1'' ''hC2''"
  "\<not> ping (realise NetworkTopo) ''hC2'' ''hA1''"
  "\<not> ping (realise NetworkTopo) ''hC2'' ''hA2''"
  "\<not> ping (realise NetworkTopo) ''hC2'' ''hB1''"
  "\<not> ping (realise NetworkTopo) ''hC2'' ''hB2''"
  "ping (realise NetworkTopo) ''hC2'' ''hC1''"
  "ping (realise NetworkTopo) ''hC2'' ''hC2''"
  by (simp_all add: realise_value ping_def node_IP_def delivers_def owns_def travels_numeral
      next_hop_def on_segment_def in_net_def)

text \<open>
  C1, as stated, fails: the probe over the six hosts reports 24 failed pairs, not none.
  A router has routes to its own LAN and to the backbone only, so a packet for another LAN
  stops at the first router.
\<close>

theorem pingAll_fails_counterexample:
  "pingAll (realise NetworkTopo) [''hA1'', ''hA2'', ''hB1'', ''hB2'', ''hC1'', ''hC2''] = 24
   \<and> \<not> ping (realise NetworkTopo) ''hA1'' ''hB1''"
  by (simp add: pingAll_def failed_pairs_def ping_table)

text \<open>
  C1, amended. After \<open>start()\<close>, a ping between two of the six declared hosts succeeds
  exactly when both are on the same LAN; the pairs the probe reports as failed are the
  pairs of hosts on different LANs.
\<close>

theorem ping_within_lan_only:
  "list_all (\<lambda>(s, d). ping (realise NetworkTopo) s d = (lan_of NetworkTopo s = lan_of NetworkTopo d))
     (List.product (names_of Host NetworkTopo) (names_of Host NetworkTopo))
   \<and> failed_pairs (realise NetworkTopo) (names_of Host NetworkTopo) =
       filter (\<lambda>(s, d). lan_of NetworkTopo s \<noteq> lan_of NetworkTopo d)
         (List.product (names_of Host NetworkTopo) (names_of Host NetworkTopo))"
  by (simp add: failed_pairs_def names_of_values ping_table lan_of_values)

section \<open>Properties of the entry point\<close>

lemma follows_logged: "follows [c] (logged c m)"
  unfolding follows_def logged_def
  by (auto split: prod.splits intro: exI[of _ 1])

lemma follows_discard: "follows cs m \<Longrightarrow> follows cs (discard m)"
  unfolding follows_def discard_def
  by (auto split: prod.splits sum.splits) (metis fst_conv snd_conv)+

lemma follows_block_Nil: "follows [] (block [])"
  unfolding follows_def by (auto simp: fun_eq_iff)

lemma follows_block_Cons:
  assumes m: "follows cs m" and r: "follows ds (block ms)"
  shows "follows (cs @ ds) (block (m # ms))"
  unfolding follows_def
proof (intro allI conjI impI)
  fix tr s
  obtain r1 tr1 s1 where m1: "m (tr, s) = (r1, (tr1, s1))"
    by (metis prod.exhaust)
  from m obtain k where k: "tr1 = tr @ take k cs"
    unfolding follows_def using m1 by (metis fst_conv snd_conv)
  show "\<exists>k. fst (snd (block (m # ms) (tr, s))) = tr @ take k (cs @ ds)"
  proof (cases r1)
    case (Inl e)
    then have "block (m # ms) (tr, s) = (Inl e, (tr1, s1))"
      using m1 by (simp add: seq_def)
    moreover have "tr @ take k cs = tr @ take (min k (length cs)) (cs @ ds)"
      by (cases "k \<le> length cs") (simp_all add: min_def)
    ultimately show ?thesis using k by (metis fst_conv snd_conv)
  next
    case (Inr a)
    then have b: "block (m # ms) (tr, s) = block ms (tr1, s1)"
      using m1 by (simp add: seq_def)
    from m m1 Inr have full: "tr1 = tr @ cs"
      unfolding follows_def by (metis fst_conv snd_conv)
    from r obtain j where "fst (snd (block ms (tr1, s1))) = tr1 @ take j ds"
      unfolding follows_def by blast
    then have "fst (snd (block (m # ms) (tr, s))) = tr @ take (length cs + j) (cs @ ds)"
      using b full by simp
    then show ?thesis by blast
  qed
  show "fst (snd (block (m # ms) (tr, s))) = tr @ cs @ ds"
    if ok: "fst (block (m # ms) (tr, s)) = Inr a" for a
  proof -
    show ?thesis
    proof (cases r1)
      case (Inl e)
      then have "block (m # ms) (tr, s) = (Inl e, (tr1, s1))"
        using m1 by (simp add: seq_def)
      with ok show ?thesis by simp
    next
      case (Inr a')
      then have b: "block (m # ms) (tr, s) = block ms (tr1, s1)"
        using m1 by (simp add: seq_def)
      from m m1 Inr have full: "tr1 = tr @ cs"
        unfolding follows_def by (metis fst_conv snd_conv)
      from r ok b have "fst (snd (block ms (tr1, s1))) = tr1 @ ds"
        unfolding follows_def by metis
      then show ?thesis using b full by simp
    qed
  qed
qed

lemma follows_block_step:
  "follows [c] m \<Longrightarrow> follows ds (block ms) \<Longrightarrow> follows (c # ds) (block (m # ms))"
  using follows_block_Cons [of "[c]" m ds ms] by simp

lemma follows_run: "follows run_calls (run (traced_net api))"
  unfolding run_def run_calls_def traced_net_def
  by (simp del: block.simps)
     (intro follows_block_step follows_block_Nil follows_logged follows_discard)

lemma follows_main: "follows (Call_setLogLevel ''info'' # run_calls) (main (traced_net api))"
proof -
  have "follows ([Call_setLogLevel ''info''] @ run_calls @ [])
          (block [setLogLevel (traced_net api) ''info'', run (traced_net api)])"
    by (intro follows_block_Cons follows_block_Nil follows_run)
       (simp add: traced_net_def follows_logged)
  then show ?thesis by (simp add: main_def)
qed

text \<open>
  C8. The entry point sets the verbosity and calls \<open>run\<close>, which hands the built topology
  to the engine, starts the network, prints the address map, runs the probe and stops the
  network. On every engine, the calls of a run are an initial segment of that script, in
  that order, and a run that returns has made all of them: the address map comes before
  the probe and \<open>stop\<close> after it, whatever the probe reports.
\<close>

theorem main_calls:
  "(\<exists>k. fst (snd (main (traced_net api) ([], w))) = take k (Call_setLogLevel ''info'' # run_calls))
   \<and> (fst (main (traced_net api) ([], w)) = Inr () \<longrightarrow>
        fst (snd (main (traced_net api) ([], w))) = Call_setLogLevel ''info'' # run_calls)"
  using follows_main [of api] unfolding follows_def
  by (metis append_Nil)

lemma main_quiet_engine: "fst (main (traced_net (quiet_engine k)) ([], 0)) = Inr ()"
  by (simp add: main_def run_def traced_net_def quiet_engine_def logged_def seq_def discard_def)

theorem main_calls_witness:
  "fst (main (traced_net (quiet_engine 24)) ([], 0)) = Inr ()
   \<and> fst (snd (main (traced_net (quiet_engine 24)) ([], 0))) =
       Call_setLogLevel ''info'' # run_calls"
  using main_calls [of "quiet_engine 24" 0] main_quiet_engine [of 24]
  by simp

end
